theory Spec2Isabelle
  imports Main "HOL-Library.AList" "HOL-Library.Sublist"
begin

section \<open>Values of the Go runtime that the package handles\<close>

text \<open>
  The package is written in Go. Three things of the language are made explicit here:
  run-time panics (a result of type \<open>panic + 'a\<close>), maps (association lists with
  distinct keys, \<open>None\<close> for the nil map) and the interface type \<open>error\<close> (a datatype
  with one constructor per dynamic type that the package tells apart).
\<close>

datatype panic =
    SliceBoundsOutOfRange
  | AssignmentToNilMap
  | NilPointerDereference
  | ComparingUncomparableType

text \<open>Values of type \<open>any\<close> that are stored in maps and given to the formatter.\<close>

datatype any = AString string | AInt int | ABool bool | ANil

text \<open>
  A Go map: \<open>None\<close> is the nil map, \<open>Some al\<close> an allocated map whose entries are
  \<open>al\<close>. The order of \<open>al\<close> stands for the order in which \<open>range\<close> happens to visit
  the entries.
\<close>

type_synonym 'v gomap = "(string \<times> 'v) list option"

definition mapassign :: "string \<Rightarrow> 'v \<Rightarrow> 'v gomap \<Rightarrow> panic + 'v gomap" where
  "mapassign key val m =
     (case m of
        None \<Rightarrow> Inl AssignmentToNilMap
      | Some al \<Rightarrow> Inr (Some (AList.update key val al)))"

definition maplen :: "'v gomap \<Rightarrow> nat" where
  "maplen m = (case m of None \<Rightarrow> 0 | Some al \<Rightarrow> length al)"

definition maprange :: "'v gomap \<Rightarrow> (string \<times> 'v) list" where
  "maprange m = (case m of None \<Rightarrow> [] | Some al \<Rightarrow> al)"

definition maplookup :: "'v gomap \<Rightarrow> string \<Rightarrow> 'v option" where
  "maplookup m key = map_of (maprange m) key"

subsection \<open>strconv.Itoa\<close>

fun digits :: "nat \<Rightarrow> string" where
  "digits n =
     (if n < 10 then [''0123456789'' ! n]
      else digits (n div 10) @ [''0123456789'' ! (n mod 10)])"

declare digits.simps [simp del]

definition Itoa :: "int \<Rightarrow> string" where
  "Itoa i = (if i < 0 then ''-'' @ digits (nat (- i)) else digits (nat i))"

subsection \<open>fmt.Sprintf\<close>

text \<open>
  The standard library's formatter, on the fragment the package's callers and tests
  use: literal text, \<open>%%\<close>, and the verbs \<open>%v\<close>, \<open>%s\<close>, \<open>%d\<close>, \<open>%t\<close> applied to
  strings, integers, booleans and nil, with the library's renderings of a verb that
  does not fit its operand, of a missing operand, of operands left over and of a
  lone \<open>%\<close> at the end. Flags, widths, precisions, argument indexes and the other
  verbs of the library are outside the fragment.
\<close>

fun typeName :: "any \<Rightarrow> string" where
  "typeName (AString s) = ''string''"
| "typeName (AInt i) = ''int''"
| "typeName (ABool b) = ''bool''"
| "typeName ANil = ''<nil>''"

fun fmtValue :: "any \<Rightarrow> string" where
  "fmtValue (AString s) = s"
| "fmtValue (AInt i) = Itoa i"
| "fmtValue (ABool b) = (if b then ''true'' else ''false'')"
| "fmtValue ANil = ''<nil>''"

definition badVerb :: "char \<Rightarrow> any \<Rightarrow> string" where
  "badVerb verb arg =
     ''%!'' @ [verb] @ ''('' @
     (if arg = ANil then ''<nil>'' else typeName arg @ ''='' @ fmtValue arg) @ '')''"

fun printArg :: "any \<Rightarrow> char \<Rightarrow> string" where
  "printArg ANil verb = (if verb = CHR ''v'' then ''<nil>'' else badVerb verb ANil)"
| "printArg (AString s) verb =
     (if verb = CHR ''v'' \<or> verb = CHR ''s'' then s else badVerb verb (AString s))"
| "printArg (AInt i) verb =
     (if verb = CHR ''v'' \<or> verb = CHR ''d'' then Itoa i else badVerb verb (AInt i))"
| "printArg (ABool b) verb =
     (if verb = CHR ''v'' \<or> verb = CHR ''t'' then fmtValue (ABool b)
      else badVerb verb (ABool b))"

fun extraArgs :: "any list \<Rightarrow> string" where
  "extraArgs [] = ''''"
| "extraArgs [a] = (if a = ANil then ''<nil>'' else typeName a @ ''='' @ fmtValue a)"
| "extraArgs (a # b # rest) =
     (if a = ANil then ''<nil>'' else typeName a @ ''='' @ fmtValue a) @ '', '' @
     extraArgs (b # rest)"

fun Sprintf :: "string \<Rightarrow> any list \<Rightarrow> string" where
  "Sprintf [] args = (if args = [] then '''' else ''%!(EXTRA '' @ extraArgs args @ '')'')"
| "Sprintf (c # rest) args =
     (if c \<noteq> CHR ''%'' then c # Sprintf rest args
      else (case rest of
              [] \<Rightarrow> ''%!(NOVERB)'' @ Sprintf [] args
            | verb # rest' \<Rightarrow>
                if verb = CHR ''%'' then CHR ''%'' # Sprintf rest' args
                else (case args of
                        [] \<Rightarrow> ''%!'' @ [verb] @ ''(MISSING)'' @ Sprintf rest' []
                      | a # args' \<Rightarrow> printArg a verb @ Sprintf rest' args')))"

section \<open>The data model\<close>

text \<open>A captured frame, with its fields \<open>file\<close>, \<open>line\<close> and \<open>function\<close>.\<close>

datatype frame = Frame (frame_file: string) (frame_line: int) (frame_function: string)

text \<open>
  A dynamic type other than \<open>Error\<close> and \<open>*Error\<close>: its name as
  \<open>reflect.TypeOf(_).String()\<close> gives it, and whether its values are comparable.
  Pointer types, strings, numbers and structs of such fields are; slice, map and
  function types, and structs or arrays that hold them, are not: \<open>==\<close> on two
  interface values of one such dynamic type panics.
\<close>

datatype dyntype = DynType (dynString: string) (comparable: bool)

text \<open>
  A foreign error is any error value that is not of this package: an opaque leaf with
  an identity (the pointer, or the value of a type that is not a pointer), the text
  its \<open>Error()\<close> method returns and its dynamic type.
\<close>

datatype foreign = ForeignError (ident: nat) (display: string) (dynType: dyntype)

definition typeString :: "foreign \<Rightarrow> string" where
  "typeString f = dynString (dynType f)"

text \<open>
  The struct \<open>Error\<close> and the interface \<open>error\<close>. The field \<open>cause\<close> holds an
  interface value: nil, a foreign error, an \<open>Error\<close> by value or a pointer to an
  \<open>Error\<close>, which is given here by the instance it points to: the pointers that
  \<open>Raise\<close> and the mutators return are never nil. A cause chain is a finite sequence
  of instances, as the fluent interface builds it when every instance is raised,
  completed and then attached as a cause.
\<close>

datatype Error =
  Error (kind: string) (module: string) (message: string) (cause: error)
        (extra: "any gomap") (stackTrace: "frame list") (captureStackTrace: bool)
        (tags: "string gomap")
and error =
    nil
  | Foreign foreign
  | ErrorVal Error
  | ErrorPtr Error

definition MAX_FRAMES :: nat where
  "MAX_FRAMES = 100"

section \<open>Declaration and construction\<close>

text \<open>strings.LastIndex for a one-character separator: the index of its last occurrence.\<close>

fun LastIndex :: "string \<Rightarrow> char \<Rightarrow> int" where
  "LastIndex [] sep = - 1"
| "LastIndex (c # s) sep =
     (let r = LastIndex s sep in
      if r \<ge> 0 then r + 1 else if c = sep then 0 else - 1)"

text \<open>
  \<open>New\<close>: the variadic flag is a list; \<open>caller\<close> is the frame that
  \<open>runtime.Callers(2, _)\<close> reports for the declaring function, if there is one.
\<close>

definition New :: "string \<Rightarrow> bool list \<Rightarrow> frame option \<Rightarrow> Error" where
  "New msg captureStackTrace_opt caller =
     (let capture = (case captureStackTrace_opt of [] \<Rightarrow> True | b # _ \<Rightarrow> b);
          modul = (case caller of
                     None \<Rightarrow> ''unknown''
                   | Some fr \<Rightarrow>
                       (let separator = LastIndex (frame_function fr) (CHR ''.'') in
                        if separator \<ge> 0 then take (nat separator) (frame_function fr)
                        else ''unknown''))
      in Error msg modul msg nil None [] capture None)"

text \<open>
  \<open>Raise\<close>: \<open>callers\<close> is the call stack above \<open>Raise\<close>, innermost caller first, of
  which \<open>runtime.Callers\<close> hands over at most \<open>MAX_FRAMES\<close> entries.
\<close>

definition Raise :: "Error \<Rightarrow> any list \<Rightarrow> frame list \<Rightarrow> Error" where
  "Raise self args callers =
     (let stack = (if captureStackTrace self then take MAX_FRAMES callers else [])
      in Error (kind self) (module self) (Sprintf (message self) args) nil
               (Some []) stack (captureStackTrace self) (Some []))"

section \<open>The mutators\<close>

text \<open>
  Each mutator changes the instance behind the pointer and returns the pointer; here
  it returns the changed instance. \<open>self.stackTrace[frames:]\<close> panics unless
  \<open>0 \<le> frames \<le> len(self.stackTrace)\<close>.
\<close>

definition Skip :: "int \<Rightarrow> Error \<Rightarrow> panic + Error" where
  "Skip frames self =
     (if captureStackTrace self then
        (if 0 \<le> frames \<and> frames \<le> int (length (stackTrace self)) then
           Inr (Error (kind self) (module self) (message self) (cause self) (extra self)
                      (drop (nat frames) (stackTrace self)) (captureStackTrace self)
                      (tags self))
         else Inl SliceBoundsOutOfRange)
      else Inr self)"

definition With :: "string \<Rightarrow> any list \<Rightarrow> Error \<Rightarrow> Error" where
  "With msg args self =
     Error (kind self) (module self) (message self @ '': '' @ Sprintf msg args)
           (cause self) (extra self) (stackTrace self) (captureStackTrace self) (tags self)"

fun assignAll :: "(string \<times> 'v) list \<Rightarrow> 'v gomap \<Rightarrow> panic + 'v gomap" where
  "assignAll [] m = Inr m"
| "assignAll ((key, val) # rest) m =
     (case mapassign key val m of
        Inl p \<Rightarrow> Inl p
      | Inr m' \<Rightarrow> assignAll rest m')"

definition Extra :: "any gomap \<Rightarrow> Error \<Rightarrow> panic + Error" where
  "Extra ex self =
     (case assignAll (maprange ex) (extra self) of
        Inl p \<Rightarrow> Inl p
      | Inr m \<Rightarrow>
          Inr (Error (kind self) (module self) (message self) (cause self) m
                     (stackTrace self) (captureStackTrace self) (tags self)))"

definition Cause :: "error \<Rightarrow> Error \<Rightarrow> Error" where
  "Cause err self =
     Error (kind self) (module self) (message self) err (extra self) (stackTrace self)
           (captureStackTrace self) (tags self)"

definition Tags :: "any gomap \<Rightarrow> Error \<Rightarrow> panic + Error" where
  "Tags tg self =
     (case assignAll (map (\<lambda>(key, val). (key, Sprintf ''%v'' [val])) (maprange tg))
                     (tags self) of
        Inl p \<Rightarrow> Inl p
      | Inr m \<Rightarrow>
          Inr (Error (kind self) (module self) (message self) (cause self) (extra self)
                     (stackTrace self) (captureStackTrace self) m))"

section \<open>Identity and membership\<close>

fun Is :: "Error \<Rightarrow> error \<Rightarrow> bool" where
  "Is self nil = False"
| "Is self (ErrorVal other) = (kind self = kind other \<and> module self = module other)"
| "Is self (ErrorPtr other) = (kind self = kind other \<and> module self = module other)"
| "Is self (Foreign f) = False"

text \<open>
  \<open>String\<close> of an instance, and the method \<open>Error\<close> of an interface value that is
  not nil, which dispatches on the dynamic type. \<open>String\<close> and \<open>Has\<close> test for nil
  before they call it, so its value at nil is never used.
\<close>

fun String :: "Error \<Rightarrow> string"
and errorText :: "error \<Rightarrow> string" where
  "String (Error k m msg c ex st cap tg) =
     (let causeMessage = (if c \<noteq> nil then '': '' @ errorText c else '''')
      in msg @ causeMessage)"
| "errorText nil = ''''"
| "errorText (Foreign f) = display f"
| "errorText (ErrorVal e) = String e"
| "errorText (ErrorPtr e) = String e"

text \<open>
  The comparison \<open>err == cause\<close> of two interface values, where \<open>cause\<close> holds a
  foreign error: false when \<open>err\<close> is nil or has another dynamic type (as \<open>Error\<close>
  and \<open>*Error\<close> are); for the same dynamic type, the comparison of the two values,
  which panics when the type is not comparable.
\<close>

fun interfaceEquals :: "error \<Rightarrow> foreign \<Rightarrow> panic + bool" where
  "interfaceEquals nil leaf = Inr False"
| "interfaceEquals (ErrorVal e) leaf = Inr False"
| "interfaceEquals (ErrorPtr e) leaf = Inr False"
| "interfaceEquals (Foreign f) leaf =
     (if dynType f = dynType leaf then
        (if comparable (dynType leaf) then Inr (f = leaf)
         else Inl ComparingUncomparableType)
      else Inr False)"

fun Has :: "Error \<Rightarrow> error \<Rightarrow> panic + bool" where
  "Has (Error k m msg c ex st cap tg) err =
     (if Is (Error k m msg c ex st cap tg) err then Inr True
      else (case c of
              nil \<Rightarrow> Inr False
            | ErrorVal inner \<Rightarrow> Has inner err
            | ErrorPtr inner \<Rightarrow> Has inner err
            | Foreign leaf \<Rightarrow>
                (case interfaceEquals err leaf of
                   Inl p \<Rightarrow> Inl p
                 | Inr same \<Rightarrow>
                     if same then Inr True
                     else if err = nil then Inl NilPointerDereference
                     else Inr (errorText err = display leaf))))"


section \<open>The text report\<close>

definition newline :: string where
  "newline = [CHR 0x0A]"

definition escape :: string where
  "escape = [CHR 0x1B]"

definition fileline :: "frame \<Rightarrow> string" where
  "fileline fr = frame_file fr @ '':'' @ Itoa (frame_line fr)"

text \<open>
  \<open>seenTraces\<close> is an allocated \<open>map[string]bool\<close> shared along the whole chain: the
  function takes it and returns it updated, next to the text.

  \<open>traceLoop\<close> is the loop over the captured frames, from the last one down to the
  first: it is given the frames in that order.
\<close>

type_synonym seen = "(string \<times> bool) list"

fun traceLoop :: "frame list \<Rightarrow> seen \<Rightarrow> bool \<Rightarrow> string \<Rightarrow> string \<times> seen" where
  "traceLoop [] seenTraces ellipsis report = (report, seenTraces)"
| "traceLoop (fr # rest) seenTraces ellipsis report =
     (if map_of seenTraces (fileline fr) = None then
        traceLoop rest (AList.update (fileline fr) True seenTraces) ellipsis
          (report @ ''    '' @ fileline fr @ newline @
                    ''        '' @ frame_function fr @ newline)
      else if \<not> ellipsis then
        traceLoop rest seenTraces True (report @ ''    [...]'' @ newline)
      else traceLoop rest seenTraces ellipsis report)"

definition traceback :: "frame list \<Rightarrow> seen \<Rightarrow> string \<times> seen" where
  "traceback st seenTraces =
     (if length st > 0 then traceLoop (rev st) seenTraces False ''''
      else (''    (Stack trace not available)'' @ newline, seenTraces))"

definition messageLine :: "string \<Rightarrow> string" where
  "messageLine msg = escape @ ''[0;31m'' @ msg @ escape @ ''[0m'' @ newline"

definition extraLine :: "any gomap \<Rightarrow> string" where
  "extraLine ex =
     (if maplen ex > 0 then
        ''    '' @
        concat (map (\<lambda>(key, val). key @ ''='' @ Sprintf ''%v'' [val] @ '' '') (maprange ex)) @
        newline
      else '''')"

definition TrimPrefix :: "string \<Rightarrow> string \<Rightarrow> string" where
  "TrimPrefix s pre = (if take (length pre) s = pre then drop (length pre) s else s)"

definition causedBy :: string where
  "causedBy = newline @ ''Caused by the following error:'' @ newline"

definition foreignReport :: "foreign \<Rightarrow> string" where
  "foreignReport leaf =
     ''    (Stack trace not available)'' @ newline @
     escape @ ''[0;31m'' @ display leaf @ escape @ ''[0m ('' @
     TrimPrefix (typeString leaf) ''*'' @ '')'' @ newline"

fun stringReport :: "Error \<Rightarrow> bool \<Rightarrow> seen \<Rightarrow> string \<times> seen" where
  "stringReport (Error k m msg c ex st cap tg) all seenTraces =
     (case traceback st seenTraces of
        (trace, seenTraces') \<Rightarrow>
          (let report = trace @ messageLine msg @ extraLine ex in
           if all \<and> c \<noteq> nil then
             (case c of
                ErrorVal inner \<Rightarrow>
                  (case stringReport inner all seenTraces' of
                     (r, s) \<Rightarrow> (report @ causedBy @ r, s))
              | ErrorPtr inner \<Rightarrow>
                  (case stringReport inner all seenTraces' of
                     (r, s) \<Rightarrow> (report @ causedBy @ r, s))
              | Foreign leaf \<Rightarrow> (report @ causedBy @ foreignReport leaf, seenTraces')
              | nil \<Rightarrow> (report, seenTraces'))
           else (report, seenTraces')))"

text \<open>\<open>StringReport\<close>: the variadic flag is a list, \<open>true\<close> when it is empty.\<close>

definition StringReport :: "bool list \<Rightarrow> Error \<Rightarrow> string" where
  "StringReport all_opt self =
     (let all = (case all_opt of [] \<Rightarrow> True | b # _ \<Rightarrow> b) in
      escape @ ''[1;91m'' @ String self @ escape @ ''[0m'' @ newline @ newline @
      ''Traceback (most recent call last):'' @ newline @
      fst (stringReport self all []))"

text \<open>
  \<open>MarshalText\<close> and \<open>MarshalJSON\<close> return the bytes below and no error. \<open>Format\<close>
  writes to the formatter state; here it returns what it writes, for a verb and the
  presence of the flag \<open>+\<close>.
\<close>

definition MarshalText :: "Error \<Rightarrow> string" where
  "MarshalText self = String self"

definition MarshalJSON :: "Error \<Rightarrow> string" where
  "MarshalJSON self = [CHR 0x22] @ String self @ [CHR 0x22]"

definition Format :: "char \<Rightarrow> bool \<Rightarrow> Error \<Rightarrow> string" where
  "Format verb plusFlag self =
     (if verb = CHR ''s'' then String self
      else if verb = CHR ''v'' then
        (if plusFlag then StringReport [] self else StringReport [False] self)
      else String self)"

section \<open>The Sentry event\<close>

text \<open>
  Modelled from the spec: the event of the Sentry client (\<open>sentry.Event\<close>,
  \<open>sentry.Exception\<close>, \<open>sentry.NewEvent\<close>, \<open>sentry.NewFrame\<close>), whose declarations
  are in a library outside the sources. An event has a message, a level, string tags,
  extras and an ordered sequence of exceptions, each with a type, a value, a module and
  possibly a stack trace, an ordered sequence of frames with function, file and line.
  \<open>sentry.NewEvent\<close> returns an event with allocated, empty maps and no exception;
  \<open>sentry.NewFrame\<close> is given a runtime frame with function, file and line, which is
  what the event keeps here.
\<close>

datatype exception =
  Exception (exception_Type: string) (exception_Value: string) (exception_Module: string)
            (exception_Stacktrace: "frame list option")

record event =
  event_Message :: string
  event_Level :: string
  event_Tags :: "(string \<times> string) list"
  event_Extra :: "(string \<times> any) list"
  event_Exception :: "exception list"

definition NewEvent :: event where
  "NewEvent = \<lparr>event_Message = '''', event_Level = '''', event_Tags = [],
               event_Extra = [], event_Exception = []\<rparr>"

definition LevelError :: string where
  "LevelError = ''error''"

text \<open>Writing all entries of a map into an allocated map, in the order of the range.\<close>

fun updateAll :: "(string \<times> 'v) list \<Rightarrow> (string \<times> 'v) list \<Rightarrow> (string \<times> 'v) list" where
  "updateAll [] m = m"
| "updateAll ((key, val) # rest) m = updateAll rest (AList.update key val m)"

definition sentryStacktrace :: "frame list \<Rightarrow> frame list option" where
  "sentryStacktrace st = (if length st > 0 then Some (rev st) else None)"

fun sentryReport :: "Error \<Rightarrow> event \<Rightarrow> event" where
  "sentryReport (Error k m msg c ex st cap tg) report =
     (let report1 =
            (case c of
               nil \<Rightarrow> report
             | ErrorVal inner \<Rightarrow> sentryReport inner report
             | ErrorPtr inner \<Rightarrow> sentryReport inner report
             | Foreign leaf \<Rightarrow>
                 report\<lparr>event_Exception := event_Exception report @
                   [Exception (TrimPrefix (typeString leaf) ''*'') (display leaf) '''' None]\<rparr>);
          report2 = report1\<lparr>event_Extra := updateAll (maprange ex) (event_Extra report1)\<rparr>;
          report3 = report2\<lparr>event_Tags := updateAll (maprange tg) (event_Tags report2)\<rparr>
      in report3\<lparr>event_Exception := event_Exception report3 @
           [Exception k (String (Error k m msg c ex st cap tg)) m (sentryStacktrace st)]\<rparr>)"

text \<open>
  The pattern \<open>\x1b\[[0-9;]*m\<close> and \<open>ReplaceAllString(_, "")\<close>: every leftmost match
  is removed.
\<close>

definition isParam :: "char \<Rightarrow> bool" where
  "isParam ch = (ch \<in> set ''0123456789;'')"

function stripANSI :: "string \<Rightarrow> string" where
  "stripANSI [] = []"
| "stripANSI (ch # s) =
     (if ch = CHR 0x1B then
        (case s of
           [] \<Rightarrow> [ch]
         | b # s' \<Rightarrow>
             if b = CHR ''['' then
               (case dropWhile isParam s' of
                  [] \<Rightarrow> ch # stripANSI s
                | e # r \<Rightarrow> if e = CHR ''m'' then stripANSI r else ch # stripANSI s)
             else ch # stripANSI s)
      else ch # stripANSI s)"
  by pat_completeness auto

termination
proof (relation "measure length")
  show "wf (measure length)" by simp
next
  fix ch :: char and s :: string and b s' e r
  assume "s = b # s'" and "dropWhile isParam s' = e # r"
  then have "length (e # r) \<le> length s'"
    using length_dropWhile_le [of isParam s'] by simp
  with \<open>s = b # s'\<close> show "(r, ch # s) \<in> measure length" by simp
qed simp_all

definition SentryReport :: "Error \<Rightarrow> event" where
  "SentryReport self =
     (let report = NewEvent\<lparr>event_Level := LevelError\<rparr>;
          report = report\<lparr>event_Message := stripANSI (StringReport [] self)\<rparr>;
          report = report\<lparr>event_Tags := AList.update ''package'' (module self) (event_Tags report)\<rparr>
      in sentryReport self report)"

section \<open>Notions used to state the properties\<close>

text \<open>
  A raised instance has both of its maps allocated: \<open>Raise\<close> makes them, and no mutator
  sets them back to nil.
\<close>

definition raised :: "Error \<Rightarrow> bool" where
  "raised e = (extra e \<noteq> None \<and> tags e \<noteq> None)"

text \<open>A Go map has one entry per key.\<close>

definition distinctKeys :: "'v gomap \<Rightarrow> bool" where
  "distinctKeys m = distinct (map fst (maprange m))"

text \<open>
  The depth of a cause chain: one for every instance of the package on it, and one
  more for a foreign error at its end.
\<close>

fun depth :: "Error \<Rightarrow> nat" where
  "depth (Error k m msg c ex st cap tg) =
     Suc (case c of
            nil \<Rightarrow> 0
          | Foreign leaf \<Rightarrow> 1
          | ErrorVal inner \<Rightarrow> depth inner
          | ErrorPtr inner \<Rightarrow> depth inner)"

text \<open>The links of a chain, the receiver first and the innermost link last.\<close>

fun links :: "Error \<Rightarrow> error list" where
  "links (Error k m msg c ex st cap tg) =
     ErrorVal (Error k m msg c ex st cap tg) #
     (case c of
        nil \<Rightarrow> []
      | Foreign leaf \<Rightarrow> [Foreign leaf]
      | ErrorVal inner \<Rightarrow> links inner
      | ErrorPtr inner \<Rightarrow> links inner)"

text \<open>The exception record that the event holds for one link.\<close>

fun linkException :: "error \<Rightarrow> exception" where
  "linkException (Foreign leaf) =
     Exception (TrimPrefix (typeString leaf) ''*'') (display leaf) '''' None"
| "linkException (ErrorVal e) =
     Exception (kind e) (String e) (module e) (sentryStacktrace (stackTrace e))"
| "linkException (ErrorPtr e) =
     Exception (kind e) (String e) (module e) (sentryStacktrace (stackTrace e))"
| "linkException nil = Exception '''' '''' '''' None"

text \<open>Whether the chain of an instance ends in a foreign error.\<close>

fun endsInForeign :: "Error \<Rightarrow> bool" where
  "endsInForeign (Error k m msg c ex st cap tg) =
     (case c of
        nil \<Rightarrow> False
      | Foreign leaf \<Rightarrow> True
      | ErrorVal inner \<Rightarrow> endsInForeign inner
      | ErrorPtr inner \<Rightarrow> endsInForeign inner)"

text \<open>
  Whether a candidate has the dynamic type of a foreign error and that type is not
  comparable, and whether \<open>Has\<close> comes to compare such a pair: \<open>Is\<close> fails at every
  instance of the chain and the chain ends in such a foreign error. A candidate that
  is an instance of the package, or whose dynamic type is comparable, never does.
\<close>

fun sameUncomparableType :: "error \<Rightarrow> foreign \<Rightarrow> bool" where
  "sameUncomparableType (Foreign f) leaf =
     (dynType f = dynType leaf \<and> \<not> comparable (dynType leaf))"
| "sameUncomparableType err leaf = False"

fun comparesUncomparable :: "Error \<Rightarrow> error \<Rightarrow> bool" where
  "comparesUncomparable (Error k m msg c ex st cap tg) err =
     (\<not> Is (Error k m msg c ex st cap tg) err
      \<and> (case c of
            nil \<Rightarrow> False
          | Foreign leaf \<Rightarrow> sameUncomparableType err leaf
          | ErrorVal inner \<Rightarrow> comparesUncomparable inner err
          | ErrorPtr inner \<Rightarrow> comparesUncomparable inner err))"

fun comparableCandidate :: "error \<Rightarrow> bool" where
  "comparableCandidate (Foreign f) = comparable (dynType f)"
| "comparableCandidate err = True"

subsection \<open>The report as a sequence of entries\<close>









subsection \<open>The report as a sequence of lines\<close>



definition singleLine :: "string \<Rightarrow> bool" where
  "singleLine s = (CHR 0x0A \<notin> set s)"








section \<open>The earlier revision of the package\<close>

text \<open>
  The file \<open>errors.go\<close> is an earlier revision of the same package: its struct has no
  \<open>module\<close> and no \<open>tags\<close> (they are empty and nil here), its \<open>Is\<close> compares the
  kinds only, and its \<open>Raise\<close> does not hand the capture flag on to the instance.
  \<open>Skip\<close>, \<open>With\<close>, \<open>Extra\<close>, \<open>Cause\<close> and \<open>String\<close> are the same in both.
\<close>

definition Raise_earlier :: "Error \<Rightarrow> any list \<Rightarrow> frame list \<Rightarrow> Error" where
  "Raise_earlier self args callers =
     (let stack = (if captureStackTrace self then take MAX_FRAMES callers else [])
      in Error (kind self) '''' (Sprintf (message self) args) nil (Some []) stack False None)"

fun Is_earlier :: "Error \<Rightarrow> error \<Rightarrow> bool" where
  "Is_earlier self nil = False"
| "Is_earlier self (ErrorVal other) = (kind self = kind other)"
| "Is_earlier self (ErrorPtr other) = (kind self = kind other)"
| "Is_earlier self (Foreign f) = False"

section \<open>The scenario of the package's test\<close>

text \<open>
  The declarations and the functions \<open>repository\<close> and \<open>view\<close> of \<open>errors_test.go\<close>,
  with the call stacks under which the two instances are raised.
\<close>

definition ErrOtherLibrary :: error where
  "ErrOtherLibrary =
     Foreign (ForeignError 1 ''other library error'' (DynType ''*errors.errorString'' True))"

definition ErrUserNotFound :: Error where
  "ErrUserNotFound =
     New ''user %s not found'' []
       (Some (Frame ''errors_test.go'' 12 ''github.com/neoxelox/errors_test.init''))"

definition ErrCannotDeposit :: Error where
  "ErrCannotDeposit =
     New ''cannot deposit'' []
       (Some (Frame ''errors_test.go'' 13 ''github.com/neoxelox/errors_test.init''))"

definition repositoryCallers :: "frame list" where
  "repositoryCallers =
     [Frame ''errors_test.go'' 136 ''github.com/neoxelox/errors_test.repository'',
      Frame ''errors_test.go'' 125 ''github.com/neoxelox/errors_test.usecase'',
      Frame ''errors_test.go'' 115 ''github.com/neoxelox/errors_test.view'',
      Frame ''errors_test.go'' 18 ''github.com/neoxelox/errors_test.TestPrint'',
      Frame ''testing.go'' 1446 ''testing.tRunner'']"

definition viewCallers :: "frame list" where
  "viewCallers =
     [Frame ''errors_test.go'' 117 ''github.com/neoxelox/errors_test.view'',
      Frame ''errors_test.go'' 18 ''github.com/neoxelox/errors_test.TestPrint'',
      Frame ''testing.go'' 1446 ''testing.tRunner'']"

definition repository :: "panic + Error" where
  "repository =
     (case Extra (Some [(''userID'', AInt 310700), (''accountID'', AString ''ARN3107'')])
             (Raise ErrUserNotFound [AString ''Alex''] repositoryCallers) of
        Inl p \<Rightarrow> Inl p
      | Inr e \<Rightarrow> Inr (Cause ErrOtherLibrary e))"

definition view :: "panic + Error" where
  "view =
     (case repository of
        Inl p \<Rightarrow> Inl p
      | Inr err \<Rightarrow>
          (case Tags (Some [(''apiVersion'', AInt 2)])
                  (With ''cannot add money to account %s'' [AString ''ARN3107'']
                     (Raise ErrCannotDeposit [] viewCallers)) of
             Inl p \<Rightarrow> Inl p
           | Inr e \<Rightarrow> Inr (Cause (ErrorPtr err) e)))"

text \<open>The two instances that these functions return.\<close>

definition repositoryError :: Error where
  "repositoryError =
     Error ''user %s not found'' ''github.com/neoxelox/errors_test'' ''user Alex not found''
       ErrOtherLibrary
       (Some [(''userID'', AInt 310700), (''accountID'', AString ''ARN3107'')])
       repositoryCallers True (Some [])"

definition viewError :: Error where
  "viewError =
     Error ''cannot deposit'' ''github.com/neoxelox/errors_test''
       ''cannot deposit: cannot add money to account ARN3107''
       (ErrorPtr repositoryError) (Some []) viewCallers True (Some [(''apiVersion'', ''2'')])"

text \<open>
  An error of a slice type, \<open>type listErr []string\<close>, whose values are not comparable,
  and an instance raised with it as its cause.
\<close>

definition listErr :: foreign where
  "listErr = ForeignError 2 ''a'' (DynType ''main.listErr'' False)"

definition listErrWrapped :: Error where
  "listErrWrapped = Cause (Foreign listErr) (Raise ErrCannotDeposit [] viewCallers)"

section \<open>Basic facts\<close>

lemma Raise_fields:
  "kind (Raise t args callers) = kind t"
  "module (Raise t args callers) = module t"
  "message (Raise t args callers) = Sprintf (message t) args"
  "cause (Raise t args callers) = nil"
  "extra (Raise t args callers) = Some []"
  "tags (Raise t args callers) = Some []"
  "captureStackTrace (Raise t args callers) = captureStackTrace t"
  "stackTrace (Raise t args callers) =
     (if captureStackTrace t then take MAX_FRAMES callers else [])"
  by (simp_all add: Raise_def)

lemma Raise_raised: "raised (Raise t args callers)"
  by (simp add: raised_def Raise_fields)

lemma Raise_bounded: "length (stackTrace (Raise t args callers)) \<le> MAX_FRAMES"
  by (simp add: Raise_fields)

lemma New_fields:
  "kind (New msg flags caller) = msg"
  "message (New msg flags caller) = msg"
  "cause (New msg flags caller) = nil"
  "extra (New msg flags caller) = None"
  "tags (New msg flags caller) = None"
  "stackTrace (New msg flags caller) = []"
  by (simp_all add: New_def Let_def)

lemma Sprintf_plain: "CHR ''%'' \<notin> set s \<Longrightarrow> Sprintf s [] = s"
  by (induction s) auto

lemma Has_unfold:
  "Has E err =
     (if Is E err then Inr True
      else (case cause E of
              nil \<Rightarrow> Inr False
            | ErrorVal inner \<Rightarrow> Has inner err
            | ErrorPtr inner \<Rightarrow> Has inner err
            | Foreign leaf \<Rightarrow>
                (case interfaceEquals err leaf of
                   Inl p \<Rightarrow> Inl p
                 | Inr same \<Rightarrow>
                     if same then Inr True
                     else if err = nil then Inl NilPointerDereference
                     else Inr (errorText err = display leaf))))"
  by (cases E) simp

lemma comparesUncomparable_unfold:
  "comparesUncomparable E err =
     (\<not> Is E err
      \<and> (case cause E of
            nil \<Rightarrow> False
          | Foreign leaf \<Rightarrow> sameUncomparableType err leaf
          | ErrorVal inner \<Rightarrow> comparesUncomparable inner err
          | ErrorPtr inner \<Rightarrow> comparesUncomparable inner err))"
  by (cases E) simp

lemma interfaceEquals_cases:
  "interfaceEquals err leaf =
     (if sameUncomparableType err leaf then Inl ComparingUncomparableType
      else Inr (err = Foreign leaf))"
  by (cases err) auto

lemma Has_returns:
  "err \<noteq> nil \<Longrightarrow> \<not> comparesUncomparable E err \<Longrightarrow> \<exists>b. Has E err = Inr b"
  by (induction E err rule: Has.induct)
     (auto simp: interfaceEquals_cases split: error.splits)

lemma Has_faults:
  "err \<noteq> nil \<Longrightarrow> comparesUncomparable E err \<Longrightarrow>
   Has E err = Inl ComparingUncomparableType"
  by (induction E err rule: Has.induct)
     (auto simp: interfaceEquals_cases split: error.splits)

lemma comparableCandidate_safe:
  "comparableCandidate err \<Longrightarrow> \<not> comparesUncomparable E err"
  by (induction E err rule: comparesUncomparable.induct)
     (auto split: error.splits elim: sameUncomparableType.elims)


subsection \<open>The scenario of the test\<close>

lemma repository_returns: "repository = Inr repositoryError"
  by (simp add: repository_def repositoryError_def Extra_def Raise_def ErrUserNotFound_def
        New_def Cause_def mapassign_def maprange_def repositoryCallers_def MAX_FRAMES_def)

lemma view_returns: "view = Inr viewError"
  by (simp add: view_def repository_returns viewError_def Tags_def With_def Raise_def
        ErrCannotDeposit_def New_def Cause_def mapassign_def maprange_def viewCallers_def
        MAX_FRAMES_def Itoa_def digits.simps)

text \<open>The assertions of the test hold of the instance that \<open>view\<close> returns.\<close>

lemma test_assertions:
  "Is ErrCannotDeposit (ErrorPtr viewError)"
  "Has viewError ErrOtherLibrary = Inr True"
  "Has viewError (ErrorVal ErrUserNotFound) = Inr True"
  "Has viewError (ErrorVal ErrCannotDeposit) = Inr True"
  by (simp_all add: viewError_def repositoryError_def ErrCannotDeposit_def ErrUserNotFound_def
        ErrOtherLibrary_def New_def)

subsection \<open>The earlier revision\<close>

text \<open>
  In the earlier revision an instance never has the capture flag set, so \<open>Skip\<close>
  leaves every raised instance as it is, whatever the count.
\<close>

lemma Skip_earlier: "Skip n (Raise_earlier t args callers) = Inr (Raise_earlier t args callers)"
  by (simp add: Skip_def Raise_earlier_def Let_def)

lemma Is_earlier_kind_only:
  "Is_earlier self (ErrorPtr other) = (kind self = kind other)"
  by simp

subsection \<open>Maps\<close>

lemma maprange_Some: "maprange (Some al) = al"
  by (simp add: maprange_def)

lemma assignAll_allocated: "assignAll xs (Some al) = Inr (Some (updateAll xs al))"
  by (induction xs al rule: updateAll.induct) (auto simp: mapassign_def)

lemma assignAll_nil: "assignAll xs None = (if xs = [] then Inr None else Inl AssignmentToNilMap)"
  by (cases xs) (auto simp: mapassign_def)

lemma map_of_updateAll:
  "distinct (map fst xs) \<Longrightarrow>
   map_of (updateAll xs al) key =
     (case map_of xs key of Some v \<Rightarrow> Some v | None \<Rightarrow> map_of al key)"
proof (induction xs al rule: updateAll.induct)
  case (1 m)
  show ?case by simp
next
  case (2 k v rest m)
  then have notin: "map_of rest k = None"
    by (simp add: map_of_eq_None_iff)
  from 2 have "map_of (updateAll rest (AList.update k v m)) key =
      (case map_of rest key of Some w \<Rightarrow> Some w | None \<Rightarrow> map_of (AList.update k v m) key)"
    by simp
  with notin show ?case
    by (auto simp: update_conv' split: option.splits)
qed

lemma map_of_coerce:
  "map_of (map (\<lambda>(key, val). (key, f val)) xs) key = map_option f (map_of xs key)"
  by (induction xs) auto

lemma map_of_updateAll_coerce:
  assumes "distinct (map fst xs)"
  shows "map_of (updateAll (map (\<lambda>(key, val). (key, f val)) xs) al) key =
           (case map_of xs key of Some v \<Rightarrow> Some (f v) | None \<Rightarrow> map_of al key)"
proof -
  have "distinct (map fst (map (\<lambda>(key, val). (key, f val)) xs))"
    using assms by (simp add: case_prod_unfold comp_def)
  from map_of_updateAll [OF this, of al key] show ?thesis
    by (simp add: map_of_coerce split: option.splits)
qed

lemma maplookup_updateAll:
  "distinctKeys m \<Longrightarrow>
   maplookup (Some (updateAll (maprange m) al)) key =
     (case maplookup m key of Some v \<Rightarrow> Some v | None \<Rightarrow> maplookup (Some al) key)"
  by (simp add: distinctKeys_def maprange_Some map_of_updateAll maplookup_def
        cong: option.case_cong)

lemma maplookup_updateAll_coerce:
  "distinctKeys m \<Longrightarrow>
   maplookup (Some (updateAll (map (\<lambda>(key, val). (key, f val)) (maprange m)) al)) key =
     (case maplookup m key of Some v \<Rightarrow> Some (f v) | None \<Rightarrow> maplookup (Some al) key)"
  by (simp add: distinctKeys_def maprange_Some map_of_updateAll_coerce maplookup_def
        cong: option.case_cong)

lemma Extra_allocated:
  "extra e = Some ex \<Longrightarrow>
   Extra m e = Inr (Error (kind e) (module e) (message e) (cause e)
                      (Some (updateAll (maprange m) ex)) (stackTrace e)
                      (captureStackTrace e) (tags e))"
  by (simp add: Extra_def assignAll_allocated)

lemma Tags_allocated:
  "tags e = Some tg \<Longrightarrow>
   Tags m e = Inr (Error (kind e) (module e) (message e) (cause e) (extra e)
                     (stackTrace e) (captureStackTrace e)
                     (Some (updateAll (map (\<lambda>(key, val). (key, Sprintf ''%v'' [val]))
                                        (maprange m)) tg)))"
  by (simp add: Tags_def assignAll_allocated del: Sprintf.simps)

text \<open>On a declared template, whose maps are nil, a merge of at least one pair panics.\<close>

lemma Extra_on_template:
  "Extra (Some ((key, val) # rest)) (New msg flags caller) = Inl AssignmentToNilMap"
  by (simp add: Extra_def New_fields maprange_Some mapassign_def)

subsection \<open>The Sentry event\<close>

lemma sentryReport_appends:
  "event_Exception (sentryReport e r) = event_Exception r @ rev (map linkException (links e))"
  by (induction e r rule: sentryReport.induct) (auto simp: Let_def split: error.splits)

lemma length_links: "length (links e) = depth e"
  by (induction e rule: depth.induct) (auto split: error.splits)

lemma links_nonempty: "links e \<noteq> []"
  by (cases e) simp

lemma hd_links: "hd (links e) = ErrorVal e"
  by (cases e) simp

subsection \<open>The report is the concatenation of its entries\<close>







subsection \<open>The locations that a traceback prints\<close>


















subsection \<open>The lines of a report\<close>














lemma singleLine_append: "singleLine (a @ b) = (singleLine a \<and> singleLine b)"
  by (auto simp: singleLine_def)




























section \<open>The properties of the specification\<close>

subsection \<open>Skip\<close>

text \<open>
  Claim C1, as amended. For every instance with stack capture enabled and every skip
  count \<open>n\<close> with \<open>0 \<le> n\<close> and \<open>n\<close> at most the number of captured frames, \<open>Skip(n)\<close>
  does not fault: it drops the first \<open>n\<close> frames, which leaves the trace empty when
  \<open>n\<close> is the number of frames, and returns the instance otherwise unchanged. For a
  count strictly greater than the number of captured frames, or a negative one, the
  slice expression of \<open>Skip\<close> panics with an out-of-range fault.
\<close>

theorem Skip_within_bounds:
  assumes "captureStackTrace e"
  shows "Skip n e =
           (if 0 \<le> n \<and> n \<le> int (length (stackTrace e)) then
              Inr (Error (kind e) (module e) (message e) (cause e) (extra e)
                         (drop (nat n) (stackTrace e)) (captureStackTrace e) (tags e))
            else Inl SliceBoundsOutOfRange)
       \<and> Skip (int (length (stackTrace e))) e =
           Inr (Error (kind e) (module e) (message e) (cause e) (extra e) []
                      (captureStackTrace e) (tags e))"
  using assms by (simp add: Skip_def)

text \<open>
  The instance that the test raises in \<open>view\<close> has three frames: skipping three of them
  leaves none.
\<close>

theorem Skip_within_bounds_witness:
  "captureStackTrace (Raise ErrCannotDeposit [] viewCallers)
   \<and> Skip 3 (Raise ErrCannotDeposit [] viewCallers) =
       Inr (Error ''cannot deposit'' ''github.com/neoxelox/errors_test'' ''cannot deposit'' nil
              (Some []) [] True (Some []))"
proof -
  have capture: "captureStackTrace (Raise ErrCannotDeposit [] viewCallers)"
    by (simp add: Raise_fields ErrCannotDeposit_def New_def)
  show ?thesis
    using capture Skip_within_bounds [OF capture, of 3]
    by (simp add: Raise_fields ErrCannotDeposit_def New_def viewCallers_def MAX_FRAMES_def)
qed

text \<open>
  The claim C1 as the specification states it fails: skipping four frames of that
  instance, which has three, does not return an instance with an empty trace but panics.
\<close>

theorem Skip_beyond_frames_panics:
  "captureStackTrace (Raise ErrCannotDeposit [] viewCallers)
   \<and> length (stackTrace (Raise ErrCannotDeposit [] viewCallers)) = 3
   \<and> Skip 4 (Raise ErrCannotDeposit [] viewCallers) = Inl SliceBoundsOutOfRange"
  by (simp add: Skip_def Raise_fields ErrCannotDeposit_def New_def viewCallers_def
        MAX_FRAMES_def)

subsection \<open>Is\<close>

text \<open>
  Claim C2. For every receiver and every candidate error value, \<open>Is(candidate)\<close> is
  true if and only if the candidate is not nil, is an instance of the package, by value
  or by pointer, and has the kind and the module of the receiver. In particular two
  raises of one template are the same error, whatever their arguments and so whatever
  their messages.
\<close>

theorem Is_identity:
  "(Is self err \<longleftrightarrow>
      err \<noteq> nil \<and>
      (\<exists>other. (err = ErrorVal other \<or> err = ErrorPtr other)
               \<and> kind other = kind self \<and> module other = module self))
   \<and> Is (Raise T a callers) (ErrorPtr (Raise T b callers'))"
  by (cases err) (auto simp: Raise_fields)

subsection \<open>Has\<close>

text \<open>
  Claim C3, as amended. For every receiver \<open>E\<close> and every candidate that is not nil:
  when \<open>Is\<close> fails at every instance of the chain of \<open>E\<close> and the chain ends in a
  foreign error of the candidate's own dynamic type, and that type is not comparable,
  the comparison \<open>err == cause\<close> panics and \<open>E.Has(candidate)\<close> faults. Otherwise
  \<open>E.Has(candidate)\<close> returns, and it returns true if and only if \<open>E.Is(candidate)\<close>
  holds, or the cause of \<open>E\<close> is an instance of the package whose \<open>Has(candidate)\<close>
  returns true, or the cause of \<open>E\<close> is a foreign error that is the candidate itself
  or whose message is exactly the candidate's; when \<open>E\<close> has no cause and \<open>Is\<close> fails
  it returns false. A candidate that is an instance of the package, or whose dynamic
  type is comparable, is never in the first case.
\<close>

theorem Has_membership:
  assumes "err \<noteq> nil"
  shows "Has E err =
           (if comparesUncomparable E err then Inl ComparingUncomparableType
            else Inr (Is E err
                      \<or> (\<exists>inner. (cause E = ErrorVal inner \<or> cause E = ErrorPtr inner)
                                  \<and> Has inner err = Inr True)
                      \<or> (\<exists>leaf. cause E = Foreign leaf
                                 \<and> (err = Foreign leaf \<or> errorText err = display leaf))))
       \<and> (comparableCandidate err \<longrightarrow> \<not> comparesUncomparable E err)"
proof -
  have returns: "Has E err =
      Inr (Is E err
           \<or> (\<exists>inner. (cause E = ErrorVal inner \<or> cause E = ErrorPtr inner)
                       \<and> Has inner err = Inr True)
           \<or> (\<exists>leaf. cause E = Foreign leaf
                      \<and> (err = Foreign leaf \<or> errorText err = display leaf)))"
    if safe: "\<not> comparesUncomparable E err"
  proof (cases "Is E err")
    case True
    then show ?thesis by (simp add: Has_unfold [of E])
  next
    case notIs: False
    show ?thesis
    proof (cases "cause E")
      case nil
      with notIs show ?thesis by (simp add: Has_unfold [of E])
    next
      case (Foreign leaf)
      with notIs safe have "\<not> sameUncomparableType err leaf"
        by (simp add: comparesUncomparable_unfold [of E])
      with notIs Foreign assms show ?thesis
        by (auto simp: Has_unfold [of E] interfaceEquals_cases)
    next
      case (ErrorVal inner)
      with notIs safe have "\<not> comparesUncomparable inner err"
        by (simp add: comparesUncomparable_unfold [of E])
      from Has_returns [OF assms this] obtain b where "Has inner err = Inr b" ..
      with notIs ErrorVal show ?thesis by (simp add: Has_unfold [of E])
    next
      case (ErrorPtr inner)
      with notIs safe have "\<not> comparesUncomparable inner err"
        by (simp add: comparesUncomparable_unfold [of E])
      from Has_returns [OF assms this] obtain b where "Has inner err = Inr b" ..
      with notIs ErrorPtr show ?thesis by (simp add: Has_unfold [of E])
    qed
  qed
  have "comparableCandidate err \<longrightarrow> \<not> comparesUncomparable E err"
    using comparableCandidate_safe [of err E] by blast
  moreover have "Has E err = Inl ComparingUncomparableType" if "comparesUncomparable E err"
    using Has_faults [OF assms that] .
  ultimately show ?thesis
    using returns by simp
qed

text \<open>
  The instance that \<open>view\<close> returns in the test has the foreign error at the end of its
  chain, two links down; the candidate is a pointer, which is comparable.
\<close>

theorem Has_membership_witness:
  "ErrOtherLibrary \<noteq> nil \<and> comparableCandidate ErrOtherLibrary
   \<and> \<not> comparesUncomparable viewError ErrOtherLibrary
   \<and> Has viewError ErrOtherLibrary = Inr True"
proof -
  have candidate: "ErrOtherLibrary \<noteq> nil"
    by (simp add: ErrOtherLibrary_def)
  have comparable: "comparableCandidate ErrOtherLibrary"
    by (simp add: ErrOtherLibrary_def)
  show ?thesis
    using candidate comparable Has_membership [OF candidate, of viewError]
    by (simp add: viewError_def repositoryError_def ErrOtherLibrary_def)
qed

text \<open>
  The claim C3 as the specification states it fails: an instance whose cause is an
  error of a slice type is asked for a candidate of that type with the same message.
  The candidate is not nil and its message is exactly the cause's, so the claim has
  \<open>Has\<close> return true, and \<open>Has\<close> panics on the comparison of the two values.
\<close>

theorem Has_uncomparable_candidate_panics:
  "Foreign listErr \<noteq> nil
   \<and> cause listErrWrapped = Foreign listErr
   \<and> errorText (Foreign listErr) = display listErr
   \<and> Has listErrWrapped (Foreign listErr) = Inl ComparingUncomparableType"
  by (simp add: listErrWrapped_def listErr_def Cause_def Raise_fields ErrCannotDeposit_def
        New_def)

text \<open>
  Claim C10. \<open>Has\<close> of a nil candidate is not total: for every instance whose cause
  chain ends in a foreign error it panics, because the comparison at the foreign leaf
  calls the method \<open>Error\<close> of the nil candidate; for an instance without a cause, or
  whose chain holds instances of the package only, it returns false.
\<close>

theorem Has_nil_candidate:
  "Has E nil = (if endsInForeign E then Inl NilPointerDereference else Inr False)
   \<and> Has (Cause nil E) nil = Inr False
   \<and> Has (Cause (Foreign leaf) E) nil = Inl NilPointerDereference"
proof -
  have "Has E nil = (if endsInForeign E then Inl NilPointerDereference else Inr False)"
    by (induction E "nil" rule: Has.induct) (auto split: error.splits)
  then show ?thesis
    by (simp add: Cause_def)
qed

subsection \<open>String and With\<close>


text \<open>
  Claim C8. \<open>With\<close> only appends: the message after \<open>With\<close> is the message before it,
  \<open>": "\<close> and the formatted suffix, so the old message is a strict prefix of the new
  one and no other field changes; \<open>With("x")\<close> and then \<open>With("y")\<close> on a message \<open>m\<close>
  give \<open>m\<close> followed by \<open>": x: y"\<close>.
\<close>

theorem With_appends:
  "message (With fmt args e) = message e @ '': '' @ Sprintf fmt args
   \<and> strict_prefix (message e) (message (With fmt args e))
   \<and> message (With ''y'' [] (With ''x'' [] e)) = message e @ '': x: y''
   \<and> kind (With fmt args e) = kind e \<and> module (With fmt args e) = module e
   \<and> cause (With fmt args e) = cause e \<and> extra (With fmt args e) = extra e
   \<and> stackTrace (With fmt args e) = stackTrace e \<and> tags (With fmt args e) = tags e"
  by (simp add: With_def strict_prefix_def)

subsection \<open>Extra and Tags\<close>

text \<open>
  Claim C9. For every raised instance, \<open>Extra(mapping)\<close> and \<open>Tags(mapping)\<close> return
  the instance with the pairs of the mapping merged into its \<open>extra\<close> and its \<open>tags\<close>:
  a key of the mapping has the mapping's value afterwards, also when the instance had
  a value for it from an earlier merge, and every other key keeps its value. \<open>Tags\<close>
  stores the value formatted with \<open>%v\<close>, its display string, at the time of the merge.
\<close>

theorem Extra_Tags_merge:
  assumes "raised e" and "distinctKeys m"
  shows "(\<exists>e'. Extra m e = Inr e' \<and> raised e'
            \<and> (\<forall>key. maplookup (extra e') key =
                  (case maplookup m key of
                     Some v \<Rightarrow> Some v
                   | None \<Rightarrow> maplookup (extra e) key))
            \<and> tags e' = tags e)
       \<and> (\<exists>e'. Tags m e = Inr e' \<and> raised e'
            \<and> (\<forall>key. maplookup (tags e') key =
                  (case maplookup m key of
                     Some v \<Rightarrow> Some (Sprintf ''%v'' [v])
                   | None \<Rightarrow> maplookup (tags e) key))
            \<and> extra e' = extra e)"
proof -
  from assms(1) obtain ex tg where ex: "extra e = Some ex" and tg: "tags e = Some tg"
    by (auto simp: raised_def)
  have "\<exists>e'. Extra m e = Inr e' \<and> raised e'
            \<and> (\<forall>key. maplookup (extra e') key =
                  (case maplookup m key of
                     Some v \<Rightarrow> Some v
                   | None \<Rightarrow> maplookup (extra e) key))
            \<and> tags e' = tags e"
    using ex tg assms(2)
    by (simp add: Extra_allocated raised_def maplookup_updateAll cong: option.case_cong)
  moreover have "\<exists>e'. Tags m e = Inr e' \<and> raised e'
            \<and> (\<forall>key. maplookup (tags e') key =
                  (case maplookup m key of
                     Some v \<Rightarrow> Some (Sprintf ''%v'' [v])
                   | None \<Rightarrow> maplookup (tags e) key))
            \<and> extra e' = extra e"
    using ex tg assms(2)
    by (simp add: Tags_allocated raised_def maplookup_updateAll_coerce
          del: Sprintf.simps cong: option.case_cong)
  ultimately show ?thesis by blast
qed

text \<open>
  The instance that \<open>repository\<close> returns in the test already has the extra
  \<open>userID\<close>: a second merge overwrites it and keeps \<open>accountID\<close>.
\<close>

theorem Extra_Tags_merge_witness:
  "raised repositoryError
   \<and> distinctKeys (Some [(''userID'', AInt 7)])
   \<and> (\<exists>e'. Extra (Some [(''userID'', AInt 7)]) repositoryError = Inr e'
           \<and> maplookup (extra e') ''userID'' = Some (AInt 7)
           \<and> maplookup (extra e') ''accountID'' = Some (AString ''ARN3107''))
   \<and> (\<exists>e'. Tags (Some [(''userID'', AInt 7)]) repositoryError = Inr e'
           \<and> maplookup (tags e') ''userID'' = Some ''7'')"
proof -
  have r: "raised repositoryError"
    by (simp add: raised_def repositoryError_def)
  have d: "distinctKeys (Some [(''userID'', AInt 7)])"
    by (simp add: distinctKeys_def maprange_def)
  from Extra_Tags_merge [OF r d]
  obtain e1 e2 where
    e1: "Extra (Some [(''userID'', AInt 7)]) repositoryError = Inr e1"
        "\<And>key. maplookup (extra e1) key =
           (case maplookup (Some [(''userID'', AInt 7)]) key of
              Some v \<Rightarrow> Some v
            | None \<Rightarrow> maplookup (extra repositoryError) key)"
    and e2: "Tags (Some [(''userID'', AInt 7)]) repositoryError = Inr e2"
        "\<And>key. maplookup (tags e2) key =
           (case maplookup (Some [(''userID'', AInt 7)]) key of
              Some v \<Rightarrow> Some (Sprintf ''%v'' [v])
            | None \<Rightarrow> maplookup (tags repositoryError) key)"
    by blast
  have "maplookup (extra e1) ''userID'' = Some (AInt 7)"
    "maplookup (extra e1) ''accountID'' = Some (AString ''ARN3107'')"
    "maplookup (tags e2) ''userID'' = Some ''7''"
    unfolding e1(2) e2(2)
    by (simp_all add: maplookup_def maprange_def repositoryError_def Itoa_def digits.simps)
  with r d e1(1) e2(1) show ?thesis by simp
qed

subsection \<open>The Sentry event\<close>

text \<open>
  Claim C5. For every cause chain of depth \<open>N\<close>, one for each instance of the package
  on it and one more for a foreign error at its end, \<open>SentryReport()\<close> gives an event
  whose exception list has exactly \<open>N\<close> records: the records of the links in reverse
  order, so that the innermost link comes first and the receiver last.
\<close>

theorem SentryReport_exceptions:
  "event_Exception (SentryReport e) = rev (map linkException (links e))
   \<and> length (event_Exception (SentryReport e)) = depth e
   \<and> last (event_Exception (SentryReport e)) = linkException (ErrorVal e)
   \<and> hd (event_Exception (SentryReport e)) = linkException (last (links e))"
  by (simp add: SentryReport_def NewEvent_def sentryReport_appends length_links
        links_nonempty hd_links last_rev hd_rev hd_map last_map)

subsection \<open>The text report\<close>





end
